theory Spec2Isabelle
  imports Complex_Main "HOL-Library.Sublist"
begin

section \<open>JavaScript values\<close>

text \<open>
  The three source files (\<^verbatim>\<open>indexu.js\<close> and two other revisions of the same script,
  \<^verbatim>\<open>part_000\<close> and \<^verbatim>\<open>part_001\<close>) keep a global array of transaction objects and a
  global counter, and run two rule evaluators over them.

  A property of \<^verbatim>\<open>details\<close> that the rules test for truth (\<^verbatim>\<open>qualityVerified\<close>,
  \<^verbatim>\<open>deliveryConfirmed\<close>, \<^verbatim>\<open>violationDetected\<close>) is an untyped JavaScript value.
\<close>

datatype jsval = JUndefined | JNull | JBool bool | JNum real | JStr string

text \<open>JavaScript's \<^verbatim>\<open>ToBoolean\<close>.\<close>

fun truthy :: "jsval \<Rightarrow> bool" where
  "truthy JUndefined = False"
| "truthy JNull = False"
| "truthy (JBool b) = b"
| "truthy (JNum x) = (x \<noteq> 0)"
| "truthy (JStr s) = (s \<noteq> [])"

text \<open>
  A numeric property holds a finite number or is absent. Finite doubles are idealised
  as reals (no rounding, no overflow). An absent property reads as \<^verbatim>\<open>undefined\<close>,
  which arithmetic turns into \<^verbatim>\<open>NaN\<close>: \<open>None\<close> stands for both. \<^verbatim>\<open>NaN\<close> is
  contagious in \<^verbatim>\<open>*\<close> and \<^verbatim>\<open>-\<close>, and every comparison with it is false.
\<close>

type_synonym jsnum = "real option"

definition jsmul :: "jsnum \<Rightarrow> jsnum \<Rightarrow> jsnum" where
  "jsmul a b = (case a of None \<Rightarrow> None | Some x \<Rightarrow> (case b of None \<Rightarrow> None | Some y \<Rightarrow> Some (x * y)))"

definition jssub :: "jsnum \<Rightarrow> jsnum \<Rightarrow> jsnum" where
  "jssub a b = (case a of None \<Rightarrow> None | Some x \<Rightarrow> (case b of None \<Rightarrow> None | Some y \<Rightarrow> Some (x - y)))"

definition jslt :: "jsnum \<Rightarrow> jsnum \<Rightarrow> bool" where
  "jslt a b = (case a of None \<Rightarrow> False | Some x \<Rightarrow> (case b of None \<Rightarrow> False | Some y \<Rightarrow> x < y))"

definition jsgt :: "jsnum \<Rightarrow> jsnum \<Rightarrow> bool" where
  "jsgt a b = (case a of None \<Rightarrow> False | Some x \<Rightarrow> (case b of None \<Rightarrow> False | Some y \<Rightarrow> x > y))"

section \<open>Data model\<close>

record thresholds =
  minTemp :: jsnum
  maxTemp :: jsnum
  minHumidity :: jsnum
  maxHumidity :: jsnum

text \<open>
  The \<^verbatim>\<open>details\<close> object, with the properties the two evaluators read or write.
  \<^verbatim>\<open>spoilageRate = None\<close> is the absent property that the destructuring default
  replaces. The thresholds object is only read, so it is held by value.
\<close>

record details =
  qualityVerified :: jsval
  deliveryConfirmed :: jsval
  quantityKg :: jsnum
  agreedPricePerKg :: jsnum
  spoilageRate :: jsnum
  currentTempCelsius :: jsnum
  currentHumidityPercent :: jsnum
  thresholds :: "thresholds option"
  violationDetected :: jsval

text \<open>
  \<^verbatim>\<open>verifyFoodConditions\<close> assigns to a property of the \<^verbatim>\<open>details\<close> object of the
  transaction it is given, and \<^verbatim>\<open>addTransaction\<close> copies the caller's record
  shallowly, so a \<^verbatim>\<open>details\<close> object is shared by every transaction built from the
  same input. The objects therefore live in a store and a transaction holds the
  address of its \<^verbatim>\<open>details\<close> (\<open>None\<close> when the property is missing or null).

  The JSDoc type \<^verbatim>\<open>Transaction\<close> is both the parameter and the result of
  \<^verbatim>\<open>addTransaction\<close>: \<open>id'\<close> and \<open>timestamp\<close> are \<open>None\<close> on a record that does
  not carry them yet.
\<close>

type_synonym addr = nat

record transaction =
  id' :: "int option"
  actorId :: string
  productId :: string
  timestamp :: "string option"
  location :: string
  eventType :: string
  details :: "addr option"

text \<open>The module's global state: the two \<^verbatim>\<open>let\<close> variables and the object store.\<close>

record state =
  simulatedBlockchain :: "transaction list"
  nextTransactionId :: int
  heap :: "addr \<Rightarrow> details"

definition initial :: "(addr \<Rightarrow> details) \<Rightarrow> state" where
  "initial h = \<lparr>simulatedBlockchain = [], nextTransactionId = 1001, heap = h\<rparr>"

datatype error = TypeError

section \<open>The ledger: \<^verbatim>\<open>addTransaction\<close>\<close>

text \<open>
  \<^verbatim>\<open>{ id: nextTransactionId++, ...transactionData, timestamp: new Date().toISOString() }\<close>:
  the counter is read and incremented, the caller's own properties are spread over
  the literal (so an \<^verbatim>\<open>id\<close> the caller supplies replaces the counter's value), and the
  timestamp is written last. The clock's reading is the parameter \<open>now\<close>.
\<close>

definition addTransaction :: "string \<Rightarrow> transaction \<Rightarrow> state \<Rightarrow> transaction \<times> state" where
  "addTransaction now transactionData s =
     (let newTransaction = transactionData
            \<lparr>id' := (case id' transactionData of None \<Rightarrow> Some (nextTransactionId s) | Some i \<Rightarrow> Some i),
             timestamp := Some now\<rparr>
      in (newTransaction,
          s\<lparr>nextTransactionId := nextTransactionId s + 1,
            simulatedBlockchain := simulatedBlockchain s @ [newTransaction]\<rparr>))"

section \<open>The pricing evaluator: \<^verbatim>\<open>processFairPricing\<close>\<close>

record payment =
  status :: string
  amount :: jsnum

text \<open>
  The filter of \<^verbatim>\<open>indexu.js\<close> (and \<^verbatim>\<open>part_001\<close>): same product, a \<^verbatim>\<open>details\<close> object,
  and \<^verbatim>\<open>violationDetected === true\<close>.
\<close>

definition recentViolations :: "state \<Rightarrow> transaction \<Rightarrow> transaction list" where
  "recentViolations s paymentTransaction =
     filter (\<lambda>tx. productId tx = productId paymentTransaction \<and>
                  (case details tx of None \<Rightarrow> False
                   | Some a \<Rightarrow> violationDetected (heap s a) = JBool True))
       (simulatedBlockchain s)"

text \<open>
  The lookup as the specification words it (\<^verbatim>\<open>findByProductWithViolation\<close>): the
  stored events, in append order, whose product matches and whose flag is exactly
  \<^verbatim>\<open>true\<close>, an absent flag counting as not set.
\<close>

definition violationFlag :: "state \<Rightarrow> transaction \<Rightarrow> jsval" where
  "violationFlag s tx = (case details tx of None \<Rightarrow> JUndefined | Some a \<Rightarrow> violationDetected (heap s a))"

definition findByProductWithViolation :: "state \<Rightarrow> string \<Rightarrow> transaction list" where
  "findByProductWithViolation s pid =
     filter (\<lambda>tx. productId tx = pid \<and> violationFlag s tx = JBool True) (simulatedBlockchain s)"

text \<open>The local variable \<^verbatim>\<open>spoilage\<close> after the first \<^verbatim>\<open>if\<close>, with the default rate.\<close>

definition spoilage :: "state \<Rightarrow> transaction \<Rightarrow> details \<Rightarrow> jsnum" where
  "spoilage s paymentTransaction d =
     (if length (recentViolations s paymentTransaction) > 0
      then jsmul (case spoilageRate d of None \<Rightarrow> Some 0.15 | Some r \<Rightarrow> Some r) (quantityKg d)
      else Some 0)"

text \<open>
  Destructuring \<^verbatim>\<open>paymentTransaction.details\<close> throws a \<^verbatim>\<open>TypeError\<close> when the
  property is missing. Nothing is assigned: the state is returned as it came.
\<close>

definition processFairPricing :: "transaction \<Rightarrow> state \<Rightarrow> (error + payment) \<times> state" where
  "processFairPricing paymentTransaction s =
     (case details paymentTransaction of
        None \<Rightarrow> (Inl TypeError, s)
      | Some a \<Rightarrow>
          (let d = heap s a;
               spoilageKg = spoilage s paymentTransaction d
           in if truthy (qualityVerified d) \<and> truthy (deliveryConfirmed d) then
                (let adjustedQty = jssub (quantityKg d) spoilageKg;
                     totalPayment = jsmul adjustedQty (agreedPricePerKg d)
                 in (Inr \<lparr>status = ''Payment Released'', amount = totalPayment\<rparr>, s))
              else if \<not> truthy (qualityVerified d) then
                (Inr \<lparr>status = ''Quality Pending'', amount = Some 0\<rparr>, s)
              else if \<not> truthy (deliveryConfirmed d) then
                (Inr \<lparr>status = ''Delivery Pending'', amount = Some 0\<rparr>, s)
              else
                (Inr \<lparr>status = ''Pending'', amount = Some 0\<rparr>, s)))"

text \<open>
  The filter of \<^verbatim>\<open>part_000\<close> ends in \<^verbatim>\<open>tx.details.violationDetected\<close> with no
  comparison: the callback's result is tested for truth.
\<close>

definition recentViolations_part000 :: "state \<Rightarrow> transaction \<Rightarrow> transaction list" where
  "recentViolations_part000 s paymentTransaction =
     filter (\<lambda>tx. productId tx = productId paymentTransaction \<and>
                  (case details tx of None \<Rightarrow> False
                   | Some a \<Rightarrow> truthy (violationDetected (heap s a))))
       (simulatedBlockchain s)"

section \<open>The conditions evaluator: \<^verbatim>\<open>verifyFoodConditions\<close>\<close>

text \<open>
  A violation message is a template string over the measured value and the two
  bounds; the constructor stands for the template and keeps the three numbers.
\<close>

datatype violation =
  TemperatureViolation jsnum jsnum jsnum
| HumidityViolation jsnum jsnum jsnum

record conditions =
  cstatus :: string
  violations :: "violation list"

text \<open>
  The two checks of all three files, each a conditional assignment to \<^verbatim>\<open>status\<close> and a
  \<^verbatim>\<open>push\<close>. \<open>None\<close> is the \<^verbatim>\<open>TypeError\<close> of destructuring a missing \<^verbatim>\<open>thresholds\<close>.
\<close>

definition checkConditions :: "details \<Rightarrow> conditions option" where
  "checkConditions d =
     (case thresholds d of
        None \<Rightarrow> None
      | Some th \<Rightarrow>
          (let r0 = \<lparr>cstatus = ''Conditions Met'', violations = []\<rparr>;
               r1 = (if jslt (currentTempCelsius d) (minTemp th) \<or> jsgt (currentTempCelsius d) (maxTemp th)
                     then \<lparr>cstatus = ''Condition Violation'',
                           violations = violations r0 @
                             [TemperatureViolation (currentTempCelsius d) (minTemp th) (maxTemp th)]\<rparr>
                     else r0);
               r2 = (if jslt (currentHumidityPercent d) (minHumidity th) \<or>
                        jsgt (currentHumidityPercent d) (maxHumidity th)
                     then \<lparr>cstatus = ''Condition Violation'',
                           violations = violations r1 @
                             [HumidityViolation (currentHumidityPercent d) (minHumidity th) (maxHumidity th)]\<rparr>
                     else r1)
           in Some r2))"

text \<open>
  \<^verbatim>\<open>indexu.js\<close>: after the checks,
  \<^verbatim>\<open>conditionTransaction.details.violationDetected = violations.length > 0\<close>.
  The console output that follows is not modelled.
\<close>

definition verifyFoodConditions :: "transaction \<Rightarrow> state \<Rightarrow> (error + conditions) \<times> state" where
  "verifyFoodConditions conditionTransaction s =
     (case details conditionTransaction of
        None \<Rightarrow> (Inl TypeError, s)
      | Some a \<Rightarrow>
          (case checkConditions (heap s a) of
             None \<Rightarrow> (Inl TypeError, s)
           | Some r \<Rightarrow>
               (Inr r,
                s\<lparr>heap := (heap s)(a := (heap s a)\<lparr>violationDetected := JBool (length (violations r) > 0)\<rparr>)\<rparr>)))"

text \<open>
  \<^verbatim>\<open>part_001\<close>: the flag is written in each branch of the final \<^verbatim>\<open>if\<close>, and the
  second branch returns a fresh empty list.
\<close>

definition verifyFoodConditions_part001 :: "transaction \<Rightarrow> state \<Rightarrow> (error + conditions) \<times> state" where
  "verifyFoodConditions_part001 conditionTransaction s =
     (case details conditionTransaction of
        None \<Rightarrow> (Inl TypeError, s)
      | Some a \<Rightarrow>
          (case checkConditions (heap s a) of
             None \<Rightarrow> (Inl TypeError, s)
           | Some r \<Rightarrow>
               (if length (violations r) > 0 then
                  (Inr r, s\<lparr>heap := (heap s)(a := (heap s a)\<lparr>violationDetected := JBool True\<rparr>)\<rparr>)
                else
                  (Inr \<lparr>cstatus = cstatus r, violations = []\<rparr>,
                   s\<lparr>heap := (heap s)(a := (heap s a)\<lparr>violationDetected := JBool False\<rparr>)\<rparr>))))"

text \<open>\<^verbatim>\<open>part_000\<close>: the same final \<^verbatim>\<open>if\<close> with no assignment in either branch.\<close>

definition verifyFoodConditions_part000 :: "transaction \<Rightarrow> state \<Rightarrow> (error + conditions) \<times> state" where
  "verifyFoodConditions_part000 conditionTransaction s =
     (case details conditionTransaction of
        None \<Rightarrow> (Inl TypeError, s)
      | Some a \<Rightarrow>
          (case checkConditions (heap s a) of
             None \<Rightarrow> (Inl TypeError, s)
           | Some r \<Rightarrow>
               (if length (violations r) > 0 then (Inr r, s)
                else (Inr \<lparr>cstatus = cstatus r, violations = []\<rparr>, s))))"

section \<open>Sequences of calls\<close>

text \<open>
  The driver appends each input record in turn. \<open>addTransactions\<close> is that loop
  without the dispatch: one \<^verbatim>\<open>addTransaction\<close> per record, each with the clock's
  reading at that call, collecting the transactions returned.
\<close>

fun addTransactions :: "(string \<times> transaction) list \<Rightarrow> state \<Rightarrow> transaction list \<times> state" where
  "addTransactions [] s = ([], s)"
| "addTransactions (nd # ds) s =
     (let r1 = addTransaction (fst nd) (snd nd) s;
          r2 = addTransactions ds (snd r1)
      in (fst r1 # fst r2, snd r2))"

text \<open>Any later use of the three functions of \<^verbatim>\<open>indexu.js\<close>, results dropped.\<close>

datatype call =
  AddTransaction string transaction
| ProcessFairPricing transaction
| VerifyFoodConditions transaction

fun exec :: "call \<Rightarrow> state \<Rightarrow> state" where
  "exec (AddTransaction now d) s = snd (addTransaction now d s)"
| "exec (ProcessFairPricing tx) s = snd (processFairPricing tx s)"
| "exec (VerifyFoodConditions tx) s = snd (verifyFoodConditions tx s)"

definition run :: "call list \<Rightarrow> state \<Rightarrow> state" where
  "run cs s = fold exec cs s"

text \<open>A call that evaluates the conditions of the object at address \<open>a\<close>.\<close>

fun evaluates :: "addr \<Rightarrow> call \<Rightarrow> bool" where
  "evaluates a (VerifyFoodConditions tx) = (details tx = Some a)"
| "evaluates a (AddTransaction now d) = False"
| "evaluates a (ProcessFairPricing tx) = False"

section \<open>Sample data\<close>

text \<open>
  Two records of \<^verbatim>\<open>sampleData\<close> in \<^verbatim>\<open>indexu.js\<close>: the transport of
  \<^verbatim>\<open>TOMATO_BATCH_001\<close> to Abuja (30 degrees against 20 to 28, humidity 50 against
  40 to 60) and the first payment request for the same product.
\<close>

definition transportDetails :: details where
  "transportDetails =
     \<lparr>qualityVerified = JUndefined, deliveryConfirmed = JUndefined,
      quantityKg = None, agreedPricePerKg = None, spoilageRate = None,
      currentTempCelsius = Some 30, currentHumidityPercent = Some 50,
      thresholds = Some \<lparr>minTemp = Some 20, maxTemp = Some 28,
                         minHumidity = Some 40, maxHumidity = Some 60\<rparr>,
      violationDetected = JUndefined\<rparr>"

definition paymentDetails :: details where
  "paymentDetails =
     \<lparr>qualityVerified = JBool True, deliveryConfirmed = JBool True,
      quantityKg = Some 500, agreedPricePerKg = Some 350, spoilageRate = Some 0.15,
      currentTempCelsius = None, currentHumidityPercent = None,
      thresholds = None, violationDetected = JUndefined\<rparr>"

definition sampleHeap :: "addr \<Rightarrow> details" where
  "sampleHeap a = (if a = 0 then transportDetails else paymentDetails)"

definition sampleTransport :: transaction where
  "sampleTransport =
     \<lparr>id' = None, actorId = ''logistics_NGR_002'', productId = ''TOMATO_BATCH_001'',
      timestamp = None, location = ''En route to Abuja Retailer'',
      eventType = ''TRANSPORT'', details = Some 0\<rparr>"

definition samplePayment :: transaction where
  "samplePayment =
     \<lparr>id' = None, actorId = ''farmer_001'', productId = ''TOMATO_BATCH_001'',
      timestamp = None, location = ''Kano Farm Office'',
      eventType = ''PAYMENT_REQUEST'', details = Some 1\<rparr>"

text \<open>
  The ledger after the transport record has been appended to the empty ledger and its
  conditions evaluated by \<^verbatim>\<open>indexu.js\<close>.
\<close>

definition afterTransport :: state where
  "afterTransport =
     (let r = addTransaction ''2025-05-24T18:00:00.000Z'' sampleTransport (initial sampleHeap)
      in snd (verifyFoodConditions (fst r) (snd r)))"

text \<open>The ledger after the transport record alone has been appended.\<close>

definition transportAppended :: "transaction \<times> state" where
  "transportAppended =
     addTransaction ''2025-05-24T18:00:00.000Z'' sampleTransport (initial sampleHeap)"

text \<open>
  The same, for a caller's record whose \<^verbatim>\<open>details\<close> already carries
  \<^verbatim>\<open>violationDetected: 1\<close>.
\<close>

definition numericFlagAppended :: "transaction \<times> state" where
  "numericFlagAppended =
     addTransaction ''2025-05-24T18:00:00.000Z'' sampleTransport
       (initial (sampleHeap(0 := transportDetails\<lparr>violationDetected := JNum 1\<rparr>)))"

text \<open>
  The values \<^verbatim>\<open>violationDetected\<close> takes in the program: absent, or one of the two
  booleans that the evaluators of \<^verbatim>\<open>indexu.js\<close> and \<^verbatim>\<open>part_001\<close> assign.
\<close>

fun booleanOrAbsent :: "jsval \<Rightarrow> bool" where
  "booleanOrAbsent JUndefined = True"
| "booleanOrAbsent (JBool b) = True"
| "booleanOrAbsent JNull = False"
| "booleanOrAbsent (JNum x) = False"
| "booleanOrAbsent (JStr v) = False"

section \<open>Arithmetic and comparison on present numbers\<close>

lemma jsmul_Some [simp]: "jsmul (Some x) (Some y) = Some (x * y)"
  by (simp add: jsmul_def)

lemma jssub_Some [simp]: "jssub (Some x) (Some y) = Some (x - y)"
  by (simp add: jssub_def)

lemma jssub_zero [simp]: "jssub a (Some 0) = a"
  by (simp add: jssub_def split: option.splits)

lemma jslt_Some [simp]: "jslt (Some x) (Some y) = (x < y)"
  by (simp add: jslt_def)

lemma jsgt_Some [simp]: "jsgt (Some x) (Some y) = (y < x)"
  by (simp add: jsgt_def)

section \<open>The ledger\<close>

lemma addTransaction_ledger:
  "simulatedBlockchain (snd (addTransaction now d s)) =
     simulatedBlockchain s @ [fst (addTransaction now d s)]"
  by (simp add: addTransaction_def Let_def)

lemma addTransaction_counter:
  "nextTransactionId (snd (addTransaction now d s)) = nextTransactionId s + 1"
  by (simp add: addTransaction_def Let_def)

lemma addTransaction_heap: "heap (snd (addTransaction now d s)) = heap s"
  by (simp add: addTransaction_def Let_def)

lemma addTransaction_id:
  "id' (fst (addTransaction now d s)) =
     (case id' d of None \<Rightarrow> Some (nextTransactionId s) | Some i \<Rightarrow> Some i)"
  by (simp add: addTransaction_def Let_def)

lemma addTransactions_length: "length (fst (addTransactions ds s)) = length ds"
  by (induction ds arbitrary: s) (simp_all add: Let_def)

text \<open>
  Whatever the records carry, N appends put the N returned transactions at the tail
  of the ledger, in call order, behind everything stored before, advance the counter
  by N and leave the object store alone.
\<close>

lemma addTransactions_ledger:
  "simulatedBlockchain (snd (addTransactions ds s)) =
     simulatedBlockchain s @ fst (addTransactions ds s)"
  by (induction ds arbitrary: s) (simp_all add: Let_def addTransaction_ledger)

lemma addTransactions_counter:
  "nextTransactionId (snd (addTransactions ds s)) = nextTransactionId s + int (length ds)"
  by (induction ds arbitrary: s) (simp_all add: Let_def addTransaction_counter)

lemma addTransactions_heap: "heap (snd (addTransactions ds s)) = heap s"
  by (induction ds arbitrary: s) (simp_all add: Let_def addTransaction_heap)

text \<open>
  When no record carries an \<^verbatim>\<open>id\<close> of its own, the ids returned are the counter's
  successive values: from the initial state, 1001, 1002, and so on.
\<close>

lemma addTransactions_ids:
  assumes "list_all (\<lambda>nd. id' (snd nd) = None) ds"
  shows "map id' (fst (addTransactions ds s)) =
           map (\<lambda>i. Some (nextTransactionId s + int i)) [0..<length ds]"
  using assms
proof (induction ds arbitrary: s)
  case Nil
  then show ?case by simp
next
  case (Cons nd ds)
  have "map id' (fst (addTransactions ds (snd (addTransaction (fst nd) (snd nd) s)))) =
          map (\<lambda>i. Some (nextTransactionId s + 1 + int i)) [0..<length ds]"
    using Cons by (simp add: addTransaction_counter)
  also have "\<dots> = map (\<lambda>i. Some (nextTransactionId s + int i)) (map Suc [0..<length ds])"
    by (simp add: add.assoc)
  finally have rest:
    "map id' (fst (addTransactions ds (snd (addTransaction (fst nd) (snd nd) s)))) =
       map (\<lambda>i. Some (nextTransactionId s + int i)) (map Suc [0..<length ds])" .
  have first: "id' (fst (addTransaction (fst nd) (snd nd) s)) = Some (nextTransactionId s)"
    using Cons.prems by (simp add: addTransaction_id)
  have "[0..<length (nd # ds)] = 0 # map Suc [0..<length ds]"
    by (simp add: upt_conv_Cons map_Suc_upt del: upt_Suc)
  then show ?case
    using rest first by (simp add: Let_def del: upt_Suc)
qed

lemma addTransactions_ids_initial:
  assumes "list_all (\<lambda>nd. id' (snd nd) = None) ds"
  shows "map id' (fst (addTransactions ds (initial h))) =
           map (\<lambda>i. Some (1001 + int i)) [0..<length ds]"
  using addTransactions_ids [OF assms, of "initial h"] by (simp add: initial_def)

section \<open>The violation lookup of \<^verbatim>\<open>indexu.js\<close>\<close>

text \<open>
  The filter inside \<^verbatim>\<open>processFairPricing\<close> of \<^verbatim>\<open>indexu.js\<close> computes the lookup the
  specification describes, and keeps the ledger's order.
\<close>

lemma recentViolations_refines:
  "recentViolations s p = findByProductWithViolation s (productId p)"
  unfolding recentViolations_def findByProductWithViolation_def violationFlag_def
  by (rule filter_cong) (auto split: option.splits)

lemma recentViolations_member:
  "tx \<in> set (recentViolations s p) \<longleftrightarrow>
     tx \<in> set (simulatedBlockchain s) \<and> productId tx = productId p \<and>
     (\<exists>a. details tx = Some a \<and> violationDetected (heap s a) = JBool True)"
  by (auto simp add: recentViolations_def split: option.splits)

lemma recentViolations_order: "subseq (recentViolations s p) (simulatedBlockchain s)"
  by (simp add: recentViolations_def)

lemma recentViolations_flags:
  assumes "\<And>b. violationDetected (heap s' b) = violationDetected (heap s b)"
    and "simulatedBlockchain s' = simulatedBlockchain s"
  shows "recentViolations s' p = recentViolations s p"
  using assms by (auto simp add: recentViolations_def intro!: filter_cong split: option.splits)

text \<open>
  The filter of \<^verbatim>\<open>part_000\<close> tests the flag for truth instead of comparing it with
  \<^verbatim>\<open>true\<close>. On a boolean or absent flag the two tests agree, so the two filters
  return the same list as long as every flag in the store is boolean or absent; and
  no call of the program stores any other value.
\<close>

lemma truthy_boolean:
  assumes "booleanOrAbsent v"
  shows "truthy v \<longleftrightarrow> v = JBool True"
  using assms by (cases v) simp_all

lemma recentViolations_part000_boolean:
  assumes "\<And>a. booleanOrAbsent (violationDetected (heap s a))"
  shows "recentViolations_part000 s p = recentViolations s p"
  unfolding recentViolations_part000_def recentViolations_def
  by (rule filter_cong) (auto simp add: truthy_boolean [OF assms] split: option.splits)

text \<open>
  Where the two filters part: a stored flag that is the number 1, which only a caller
  could have put on the object before appending it.
\<close>

lemma recentViolations_part000_number:
  "violationDetected (heap (snd numericFlagAppended) 0) = JNum 1
   \<and> recentViolations_part000 (snd numericFlagAppended) samplePayment = [fst numericFlagAppended]
   \<and> recentViolations (snd numericFlagAppended) samplePayment = []"
  by (simp add: numericFlagAppended_def addTransaction_def initial_def sampleTransport_def
      samplePayment_def transportDetails_def recentViolations_part000_def recentViolations_def
      Let_def)

section \<open>The pricing evaluator on present numbers\<close>

lemma spoilage_numeric:
  assumes "quantityKg d = Some q"
  shows "spoilage s tx d =
    Some (if recentViolations s tx \<noteq> []
          then (case spoilageRate d of None \<Rightarrow> 0.15 | Some r \<Rightarrow> r) * q else 0)"
  using assms by (simp add: spoilage_def split: option.splits)

lemma released_amount:
  assumes "details tx = Some a"
    and "truthy (qualityVerified (heap s a))" and "truthy (deliveryConfirmed (heap s a))"
    and "quantityKg (heap s a) = Some q" and "agreedPricePerKg (heap s a) = Some p"
  shows "fst (processFairPricing tx s) =
    Inr \<lparr>status = ''Payment Released'',
         amount = Some ((q - (if recentViolations s tx \<noteq> []
                              then (case spoilageRate (heap s a) of None \<Rightarrow> 0.15 | Some r \<Rightarrow> r) * q
                              else 0)) * p)\<rparr>"
  using assms by (simp add: processFairPricing_def Let_def spoilage_numeric)

lemma pending_amount:
  assumes "details tx = Some a"
    and "\<not> (truthy (qualityVerified (heap s a)) \<and> truthy (deliveryConfirmed (heap s a)))"
  shows "\<exists>res. fst (processFairPricing tx s) = Inr res \<and> amount res = Some 0"
  using assms by (auto simp add: processFairPricing_def Let_def)

section \<open>The conditions evaluator\<close>

lemma checkConditions_Some:
  assumes "thresholds d = Some th"
  shows "\<exists>r. checkConditions d = Some r"
  using assms by (simp add: checkConditions_def Let_def)

text \<open>
  \<^verbatim>\<open>indexu.js\<close>: on an event with \<^verbatim>\<open>details\<close> and \<^verbatim>\<open>thresholds\<close> the evaluator
  returns, and the flag it leaves on the object is the boolean "the returned list is
  not empty".
\<close>

lemma verifyFoodConditions_flag:
  assumes "details tx = Some a" and "thresholds (heap s a) = Some th"
  shows "\<exists>r. fst (verifyFoodConditions tx s) = Inr r \<and>
             violationDetected (heap (snd (verifyFoodConditions tx s)) a) =
               JBool (violations r \<noteq> [])"
proof -
  obtain r where "checkConditions (heap s a) = Some r"
    using checkConditions_Some [OF assms(2)] by blast
  with assms(1) show ?thesis
    by (simp add: verifyFoodConditions_def)
qed

lemma verifyFoodConditions_ledger:
  "simulatedBlockchain (snd (verifyFoodConditions tx s)) = simulatedBlockchain s"
  by (simp add: verifyFoodConditions_def split: option.splits)

lemma verifyFoodConditions_counter:
  "nextTransactionId (snd (verifyFoodConditions tx s)) = nextTransactionId s"
  by (simp add: verifyFoodConditions_def split: option.splits)

lemma verifyFoodConditions_other:
  assumes "details tx \<noteq> Some a"
  shows "heap (snd (verifyFoodConditions tx s)) a = heap s a"
  using assms by (auto simp add: verifyFoodConditions_def split: option.splits)

text \<open>The evaluator of \<^verbatim>\<open>part_001\<close> is the one of \<^verbatim>\<open>indexu.js\<close>.\<close>

lemma verifyFoodConditions_part001_same:
  "verifyFoodConditions_part001 tx s = verifyFoodConditions tx s"
  by (auto simp add: verifyFoodConditions_part001_def verifyFoodConditions_def
      split: option.splits)

text \<open>The evaluator of \<^verbatim>\<open>part_000\<close> returns the same result and never changes the state.\<close>

lemma verifyFoodConditions_part000_result:
  "fst (verifyFoodConditions_part000 tx s) = fst (verifyFoodConditions tx s)"
  by (auto simp add: verifyFoodConditions_part000_def verifyFoodConditions_def
      split: option.splits)

lemma verifyFoodConditions_part000_state:
  "snd (verifyFoodConditions_part000 tx s) = s"
  by (simp add: verifyFoodConditions_part000_def split: option.splits)

section \<open>Later calls\<close>

lemma exec_pricing: "exec (ProcessFairPricing tx) s = s"
  by (simp add: processFairPricing_def Let_def split: option.splits)

lemma exec_heap:
  assumes "\<not> evaluates a c"
  shows "heap (exec c s) a = heap s a"
proof (cases c)
  case (AddTransaction now d)
  then show ?thesis by (simp add: addTransaction_heap)
next
  case (ProcessFairPricing tx)
  then show ?thesis by (simp only: exec_pricing)
next
  case (VerifyFoodConditions tx)
  with assms show ?thesis by (simp add: verifyFoodConditions_other)
qed

lemma exec_ledger: "\<exists>ys. simulatedBlockchain (exec c s) = simulatedBlockchain s @ ys"
proof (cases c)
  case (AddTransaction now d)
  then show ?thesis by (simp add: addTransaction_ledger)
next
  case (ProcessFairPricing tx)
  then show ?thesis by (simp only: exec_pricing) simp
next
  case (VerifyFoodConditions tx)
  then show ?thesis by (simp add: verifyFoodConditions_ledger)
qed

lemma run_heap:
  assumes "list_all (\<lambda>c. \<not> evaluates a c) cs"
  shows "heap (run cs s) a = heap s a"
  using assms unfolding run_def
  by (induction cs arbitrary: s) (simp_all add: exec_heap)

text \<open>No call deletes or reorders: the ledger before is a prefix of the ledger after.\<close>

lemma run_ledger: "\<exists>ys. simulatedBlockchain (run cs s) = simulatedBlockchain s @ ys"
  unfolding run_def
proof (induction cs arbitrary: s)
  case Nil
  then show ?case by simp
next
  case (Cons c cs)
  obtain ys where "simulatedBlockchain (exec c s) = simulatedBlockchain s @ ys"
    using exec_ledger by blast
  moreover obtain zs where
    "simulatedBlockchain (fold exec cs (exec c s)) = simulatedBlockchain (exec c s) @ zs"
    using Cons by blast
  ultimately show ?case by simp
qed

text \<open>Every call leaves the flags boolean or absent when they were so before.\<close>

lemma verifyFoodConditions_boolean:
  assumes "\<And>a. booleanOrAbsent (violationDetected (heap s a))"
  shows "booleanOrAbsent (violationDetected (heap (snd (verifyFoodConditions tx s)) b))"
  using assms by (simp add: verifyFoodConditions_def split: option.splits)

lemma exec_boolean:
  assumes "\<And>a. booleanOrAbsent (violationDetected (heap s a))"
  shows "booleanOrAbsent (violationDetected (heap (exec c s) b))"
proof (cases c)
  case (AddTransaction now d)
  with assms show ?thesis by (simp add: addTransaction_heap)
next
  case (ProcessFairPricing tx)
  with assms show ?thesis by (simp only: exec_pricing)
next
  case (VerifyFoodConditions tx)
  with assms show ?thesis by (simp add: verifyFoodConditions_boolean)
qed

lemma run_boolean:
  assumes "\<And>a. booleanOrAbsent (violationDetected (heap s a))"
  shows "booleanOrAbsent (violationDetected (heap (run cs s) b))"
  using assms unfolding run_def
proof (induction cs arbitrary: s b)
  case Nil
  then show ?case by simp
next
  case (Cons c cs)
  have "\<And>a. booleanOrAbsent (violationDetected (heap (exec c s) a))"
    using Cons.prems by (rule exec_boolean)
  then show ?case
    using Cons.IH by simp
qed

text \<open>
  \<^verbatim>\<open>indexu.js\<close>: once the conditions of a stored event have been evaluated, every
  lookup for its product, after any further appends, pricing calls and evaluations of
  other objects, holds the event exactly when the returned list was not empty.
\<close>

lemma annotation_persists:
  assumes "tx \<in> set (simulatedBlockchain s)"
    and "details tx = Some a" and "thresholds (heap s a) = Some th"
    and "list_all (\<lambda>c. \<not> evaluates a c) cs"
    and "productId p = productId tx"
  shows "\<exists>r. fst (verifyFoodConditions tx s) = Inr r \<and>
             violationDetected (heap (snd (verifyFoodConditions tx s)) a) =
               JBool (violations r \<noteq> []) \<and>
             (tx \<in> set (recentViolations (run cs (snd (verifyFoodConditions tx s))) p)
                \<longleftrightarrow> violations r \<noteq> [])"
proof -
  let ?s1 = "snd (verifyFoodConditions tx s)"
  obtain r where r: "fst (verifyFoodConditions tx s) = Inr r"
    "violationDetected (heap ?s1 a) = JBool (violations r \<noteq> [])"
    using verifyFoodConditions_flag [OF assms(2,3)] by blast
  have "heap (run cs ?s1) a = heap ?s1 a"
    using assms(4) by (rule run_heap)
  then have flag: "violationDetected (heap (run cs ?s1) a) = JBool (violations r \<noteq> [])"
    using r(2) by simp
  obtain ys where "simulatedBlockchain (run cs ?s1) = simulatedBlockchain ?s1 @ ys"
    using run_ledger by blast
  then have "tx \<in> set (simulatedBlockchain (run cs ?s1))"
    using assms(1) by (simp add: verifyFoodConditions_ledger)
  then have "tx \<in> set (recentViolations (run cs ?s1) p) \<longleftrightarrow> violations r \<noteq> []"
    using assms(2,5) flag by (simp add: recentViolations_member)
  with r show ?thesis by blast
qed

section \<open>The sample scenario\<close>

lemma afterTransport_eval:
  "afterTransport =
     \<lparr>simulatedBlockchain =
        [sampleTransport\<lparr>id' := Some 1001, timestamp := Some ''2025-05-24T18:00:00.000Z''\<rparr>],
      nextTransactionId = 1002,
      heap = sampleHeap(0 := transportDetails\<lparr>violationDetected := JBool True\<rparr>)\<rparr>"
  by (simp add: afterTransport_def addTransaction_def initial_def verifyFoodConditions_def
      checkConditions_def sampleTransport_def sampleHeap_def transportDetails_def Let_def)

lemma afterTransport_payment: "heap afterTransport 1 = paymentDetails"
  by (simp add: afterTransport_eval sampleHeap_def)

lemma afterTransport_payment_Suc: "heap afterTransport (Suc 0) = paymentDetails"
  using afterTransport_payment by simp

lemma afterTransport_violations:
  "recentViolations afterTransport samplePayment =
     [sampleTransport\<lparr>id' := Some 1001, timestamp := Some ''2025-05-24T18:00:00.000Z''\<rparr>]"
  by (simp add: afterTransport_eval recentViolations_def sampleTransport_def samplePayment_def)

lemma initial_violations: "recentViolations (initial sampleHeap) samplePayment = []"
  by (simp add: recentViolations_def initial_def)

lemma samplePayment_details: "details samplePayment = Some 1"
  by (simp add: samplePayment_def)

section \<open>The claims\<close>

text \<open>
  C1. After the conditions evaluator has run on an event, the event's
  \<^verbatim>\<open>details.violationDetected\<close> is the boolean "the returned violations are not
  empty", and later lookups for its product hold the event exactly in that case.
  \<^verbatim>\<open>indexu.js\<close> and \<^verbatim>\<open>part_001\<close> do this (\<open>annotation_persists\<close>,
  \<open>verifyFoodConditions_part001_same\<close>). The evaluator of \<^verbatim>\<open>part_000\<close> does
  not: on the sample transport (30 degrees against 20 to 28) it returns one
  temperature violation, leaves the state as it was with the flag still undefined, and
  the lookup of that file for the product stays empty.
\<close>

theorem part000_flag_not_written:
  "fst (verifyFoodConditions_part000 (fst transportAppended) (snd transportAppended)) =
     Inr \<lparr>cstatus = ''Condition Violation'',
          violations = [TemperatureViolation (Some 30) (Some 20) (Some 28)]\<rparr>
   \<and> snd (verifyFoodConditions_part000 (fst transportAppended) (snd transportAppended)) =
       snd transportAppended
   \<and> violationDetected
       (heap (snd (verifyFoodConditions_part000 (fst transportAppended) (snd transportAppended))) 0)
       = JUndefined
   \<and> recentViolations_part000
       (snd (verifyFoodConditions_part000 (fst transportAppended) (snd transportAppended)))
       samplePayment = []"
  by (simp add: verifyFoodConditions_part000_def checkConditions_def initial_def sampleHeap_def
      transportDetails_def sampleTransport_def samplePayment_def transportAppended_def
      addTransaction_def recentViolations_part000_def Let_def)

text \<open>
  C2. The violation lookup of the pricing evaluator returns, in append order, exactly
  the stored events whose product matches and whose \<^verbatim>\<open>violationDetected\<close> is
  strictly the boolean \<^verbatim>\<open>true\<close>: it is the filter of the ledger by that test, hence
  a subsequence of the ledger that holds an event exactly when the event is stored,
  is of the product and has the flag \<^verbatim>\<open>true\<close>; an event without \<^verbatim>\<open>details\<close>, with
  an absent flag, or with a flag that is true-like but not \<^verbatim>\<open>true\<close> is left out.
\<close>

theorem recentViolations_strict:
  "recentViolations s p =
     filter (\<lambda>tx. productId tx = productId p \<and> violationFlag s tx = JBool True)
       (simulatedBlockchain s)
   \<and> recentViolations s p = findByProductWithViolation s (productId p)
   \<and> subseq (recentViolations s p) (simulatedBlockchain s)
   \<and> (\<forall>tx. tx \<in> set (recentViolations s p) \<longleftrightarrow>
         tx \<in> set (simulatedBlockchain s) \<and> productId tx = productId p \<and>
         violationFlag s tx = JBool True)
   \<and> (\<forall>tx. violationFlag s tx \<noteq> JBool True \<longrightarrow> tx \<notin> set (recentViolations s p))"
proof -
  have eq: "recentViolations s p =
     filter (\<lambda>tx. productId tx = productId p \<and> violationFlag s tx = JBool True)
       (simulatedBlockchain s)"
    unfolding recentViolations_def violationFlag_def
    by (rule filter_cong) (auto split: option.splits)
  then have spec: "recentViolations s p = findByProductWithViolation s (productId p)"
    by (simp add: findByProductWithViolation_def)
  have sub: "subseq (recentViolations s p) (simulatedBlockchain s)"
    by (simp add: recentViolations_def)
  have mem: "tx \<in> set (recentViolations s p) \<longleftrightarrow>
         tx \<in> set (simulatedBlockchain s) \<and> productId tx = productId p \<and>
         violationFlag s tx = JBool True" for tx
    by (subst eq) auto
  from eq spec sub mem show ?thesis by blast
qed

theorem recentViolations_strict_witness:
  "recentViolations afterTransport samplePayment =
     findByProductWithViolation afterTransport ''TOMATO_BATCH_001''
   \<and> sampleTransport\<lparr>id' := Some 1001, timestamp := Some ''2025-05-24T18:00:00.000Z''\<rparr>
       \<in> set (recentViolations afterTransport samplePayment)
   \<and> fst numericFlagAppended \<notin> set (recentViolations (snd numericFlagAppended) samplePayment)
   \<and> fst transportAppended \<notin> set (recentViolations (snd transportAppended) samplePayment)"
proof -
  let ?tx = "sampleTransport\<lparr>id' := Some 1001, timestamp := Some ''2025-05-24T18:00:00.000Z''\<rparr>"
  have pid: "productId samplePayment = ''TOMATO_BATCH_001''"
    by (simp add: samplePayment_def)
  have "recentViolations afterTransport samplePayment =
     findByProductWithViolation afterTransport (productId samplePayment)"
    using recentViolations_strict [of afterTransport samplePayment] by blast
  then have a: "recentViolations afterTransport samplePayment =
     findByProductWithViolation afterTransport ''TOMATO_BATCH_001''"
    by (simp only: pid)
  have mem: "?tx \<in> set (recentViolations afterTransport samplePayment) \<longleftrightarrow>
      ?tx \<in> set (simulatedBlockchain afterTransport) \<and>
      productId ?tx = productId samplePayment \<and> violationFlag afterTransport ?tx = JBool True"
    using recentViolations_strict [of afterTransport samplePayment] by blast
  have "?tx \<in> set (simulatedBlockchain afterTransport)"
    by (simp add: afterTransport_eval)
  moreover have "productId ?tx = productId samplePayment"
    by (simp add: sampleTransport_def samplePayment_def)
  moreover have "violationFlag afterTransport ?tx = JBool True"
    by (simp add: violationFlag_def afterTransport_eval sampleTransport_def)
  ultimately have b: "?tx \<in> set (recentViolations afterTransport samplePayment)"
    using mem by blast
  have "violationFlag (snd numericFlagAppended) (fst numericFlagAppended) = JNum 1"
    by (simp add: violationFlag_def numericFlagAppended_def addTransaction_def initial_def
        sampleTransport_def Let_def)
  then have "violationFlag (snd numericFlagAppended) (fst numericFlagAppended) \<noteq> JBool True"
    by simp
  then have c: "fst numericFlagAppended \<notin> set (recentViolations (snd numericFlagAppended) samplePayment)"
    using recentViolations_strict [of "snd numericFlagAppended" samplePayment] by blast
  have "violationFlag (snd transportAppended) (fst transportAppended) = JUndefined"
    by (simp add: violationFlag_def transportAppended_def addTransaction_def initial_def
        sampleTransport_def sampleHeap_def transportDetails_def Let_def)
  then have "violationFlag (snd transportAppended) (fst transportAppended) \<noteq> JBool True"
    by simp
  then have d: "fst transportAppended \<notin> set (recentViolations (snd transportAppended) samplePayment)"
    using recentViolations_strict [of "snd transportAppended" samplePayment] by blast
  from a b c d show ?thesis by blast
qed

text \<open>
  C3. With boolean flags the pricing evaluator decides in this order: both true
  releases the payment, of amount (quantity minus spoilage) times price; otherwise
  quality not verified gives "Quality Pending" with amount 0, whatever the delivery
  flag; otherwise "Delivery Pending" with amount 0.
\<close>

theorem processFairPricing_precedence:
  assumes "details tx = Some a"
    and "qualityVerified (heap s a) = JBool qv"
    and "deliveryConfirmed (heap s a) = JBool dc"
  shows "processFairPricing tx s =
    (if qv \<and> dc then
       (Inr \<lparr>status = ''Payment Released'',
             amount = jsmul (jssub (quantityKg (heap s a)) (spoilage s tx (heap s a)))
                        (agreedPricePerKg (heap s a))\<rparr>, s)
     else if \<not> qv then (Inr \<lparr>status = ''Quality Pending'', amount = Some 0\<rparr>, s)
     else (Inr \<lparr>status = ''Delivery Pending'', amount = Some 0\<rparr>, s))"
  using assms by (simp add: processFairPricing_def Let_def)

theorem processFairPricing_precedence_witness:
  "processFairPricing samplePayment afterTransport =
     (Inr \<lparr>status = ''Payment Released'', amount = Some 148750\<rparr>, afterTransport)
   \<and> fst (processFairPricing samplePayment
        (initial (sampleHeap(1 := paymentDetails\<lparr>qualityVerified := JBool False,
                                                 deliveryConfirmed := JBool False\<rparr>)))) =
      Inr \<lparr>status = ''Quality Pending'', amount = Some 0\<rparr>
   \<and> fst (processFairPricing samplePayment
        (initial (sampleHeap(1 := paymentDetails\<lparr>deliveryConfirmed := JBool False\<rparr>)))) =
      Inr \<lparr>status = ''Delivery Pending'', amount = Some 0\<rparr>"
proof -
  note d = samplePayment_details
  have "spoilage afterTransport samplePayment paymentDetails = Some 75"
    by (simp add: spoilage_def afterTransport_violations paymentDetails_def)
  then have a: "processFairPricing samplePayment afterTransport =
     (Inr \<lparr>status = ''Payment Released'', amount = Some 148750\<rparr>, afterTransport)"
    using processFairPricing_precedence [of samplePayment 1 afterTransport True True] d
      afterTransport_payment
    by (simp add: paymentDetails_def)
  let ?s2 = "initial (sampleHeap(1 := paymentDetails\<lparr>qualityVerified := JBool False,
                                                       deliveryConfirmed := JBool False\<rparr>))"
  have b: "fst (processFairPricing samplePayment ?s2) =
      Inr \<lparr>status = ''Quality Pending'', amount = Some 0\<rparr>"
    using processFairPricing_precedence [of samplePayment 1 ?s2 False False] d
    by (simp add: initial_def)
  let ?s3 = "initial (sampleHeap(1 := paymentDetails\<lparr>deliveryConfirmed := JBool False\<rparr>))"
  have c: "fst (processFairPricing samplePayment ?s3) =
      Inr \<lparr>status = ''Delivery Pending'', amount = Some 0\<rparr>"
    using processFairPricing_precedence [of samplePayment 1 ?s3 True False] d
    by (simp add: initial_def paymentDetails_def)
  from a b c show ?thesis by blast
qed

text \<open>
  C4. The pricing evaluator deducts a spoilage of rate times quantity when the lookup
  for the product is not empty and of 0 when it is empty, the rate being 0.15 when the
  event carries none: whenever it releases, the amount it returns is
  (quantity minus that spoilage) times price, and so quantity times price on an empty
  lookup. The two flags decide the branch only: the spoilage computed is the same
  whatever values they have, and with both flags not true-like the amount is 0.
\<close>

theorem processFairPricing_spoilage:
  assumes "details tx = Some a"
    and "quantityKg (heap s a) = Some q" and "agreedPricePerKg (heap s a) = Some p"
  shows "(truthy (qualityVerified (heap s a)) \<and> truthy (deliveryConfirmed (heap s a)) \<longrightarrow>
            fst (processFairPricing tx s) =
              Inr \<lparr>status = ''Payment Released'',
                   amount = Some ((q - (if recentViolations s tx = [] then 0
                                        else (case spoilageRate (heap s a) of
                                                None \<Rightarrow> 0.15 | Some r \<Rightarrow> r) * q)) * p)\<rparr>)
         \<and> (truthy (qualityVerified (heap s a)) \<and> truthy (deliveryConfirmed (heap s a)) \<and>
             recentViolations s tx \<noteq> [] \<and> spoilageRate (heap s a) = None \<longrightarrow>
               fst (processFairPricing tx s) =
                 Inr \<lparr>status = ''Payment Released'', amount = Some ((q - 0.15 * q) * p)\<rparr>)
         \<and> (truthy (qualityVerified (heap s a)) \<and> truthy (deliveryConfirmed (heap s a)) \<and>
             recentViolations s tx = [] \<longrightarrow>
               fst (processFairPricing tx s) =
                 Inr \<lparr>status = ''Payment Released'', amount = Some (q * p)\<rparr>)
         \<and> (\<not> (truthy (qualityVerified (heap s a)) \<and> truthy (deliveryConfirmed (heap s a))) \<longrightarrow>
               (\<exists>res. fst (processFairPricing tx s) = Inr res \<and> amount res = Some 0))
         \<and> spoilage s tx (heap s a) =
             Some (if recentViolations s tx = [] then 0
                   else (case spoilageRate (heap s a) of None \<Rightarrow> 0.15 | Some r \<Rightarrow> r) * q)
         \<and> spoilage (s\<lparr>heap := (heap s)(a := (heap s a)\<lparr>qualityVerified := x,
                                                        deliveryConfirmed := y\<rparr>)\<rparr>)
              tx ((heap s a)\<lparr>qualityVerified := x, deliveryConfirmed := y\<rparr>)
             = spoilage s tx (heap s a)"
proof -
  let ?d' = "(heap s a)\<lparr>qualityVerified := x, deliveryConfirmed := y\<rparr>"
  let ?s' = "s\<lparr>heap := (heap s)(a := ?d')\<rparr>"
  let ?k = "if recentViolations s tx = [] then 0
            else (case spoilageRate (heap s a) of None \<Rightarrow> 0.15 | Some r \<Rightarrow> r) * q"
  have released: "fst (processFairPricing tx s) =
      Inr \<lparr>status = ''Payment Released'', amount = Some ((q - ?k) * p)\<rparr>"
    if "truthy (qualityVerified (heap s a))" "truthy (deliveryConfirmed (heap s a))"
    using released_amount [OF assms(1) that assms(2,3)] by (simp split: if_splits)
  have dflt: "fst (processFairPricing tx s) =
      Inr \<lparr>status = ''Payment Released'', amount = Some ((q - 0.15 * q) * p)\<rparr>"
    if "truthy (qualityVerified (heap s a))" "truthy (deliveryConfirmed (heap s a))"
      "recentViolations s tx \<noteq> []" "spoilageRate (heap s a) = None"
    using released [OF that(1,2)] that(3,4) by simp
  have none: "fst (processFairPricing tx s) =
      Inr \<lparr>status = ''Payment Released'', amount = Some (q * p)\<rparr>"
    if "truthy (qualityVerified (heap s a))" "truthy (deliveryConfirmed (heap s a))"
      "recentViolations s tx = []"
    using released [OF that(1,2)] that(3) by simp
  have pending: "\<exists>res. fst (processFairPricing tx s) = Inr res \<and> amount res = Some 0"
    if "\<not> (truthy (qualityVerified (heap s a)) \<and> truthy (deliveryConfirmed (heap s a)))"
    using pending_amount [OF assms(1) that] .
  have local: "spoilage s tx (heap s a) = Some ?k"
    using assms(2) by (simp add: spoilage_numeric)
  have "recentViolations ?s' tx = recentViolations s tx"
    by (rule recentViolations_flags) simp_all
  then have frame: "spoilage ?s' tx ?d' = spoilage s tx (heap s a)"
    by (simp add: spoilage_def)
  from released dflt none pending local frame show ?thesis by blast
qed

theorem processFairPricing_spoilage_witness:
  "fst (processFairPricing samplePayment (initial sampleHeap)) =
       Inr \<lparr>status = ''Payment Released'', amount = Some 175000\<rparr>
   \<and> fst (processFairPricing samplePayment afterTransport) =
       Inr \<lparr>status = ''Payment Released'', amount = Some 148750\<rparr>
   \<and> fst (processFairPricing samplePayment
        (afterTransport\<lparr>heap := (heap afterTransport)
                                 (1 := paymentDetails\<lparr>spoilageRate := None\<rparr>)\<rparr>)) =
       Inr \<lparr>status = ''Payment Released'', amount = Some 148750\<rparr>
   \<and> fst (processFairPricing samplePayment
        (afterTransport\<lparr>heap := (heap afterTransport)
                                 (1 := paymentDetails\<lparr>spoilageRate := Some 0.5\<rparr>)\<rparr>)) =
       Inr \<lparr>status = ''Payment Released'', amount = Some 87500\<rparr>
   \<and> spoilage afterTransport samplePayment paymentDetails = Some 75"
proof -
  have h0: "heap (initial sampleHeap) 1 = paymentDetails"
    by (simp add: initial_def sampleHeap_def)
  note d = samplePayment_details
  have q: "quantityKg paymentDetails = Some 500"
    and p: "agreedPricePerKg paymentDetails = Some 350"
    by (simp_all add: paymentDetails_def)
  have a: "fst (processFairPricing samplePayment (initial sampleHeap)) =
       Inr \<lparr>status = ''Payment Released'', amount = Some 175000\<rparr>"
    using processFairPricing_spoilage [of samplePayment 1 "initial sampleHeap" 500 350]
      d q p h0 initial_violations
    by (simp add: paymentDetails_def)
  have b: "fst (processFairPricing samplePayment afterTransport) =
       Inr \<lparr>status = ''Payment Released'', amount = Some 148750\<rparr>
     \<and> spoilage afterTransport samplePayment paymentDetails = Some 75"
    using processFairPricing_spoilage [of samplePayment 1 afterTransport 500 350] d q p
      afterTransport_payment afterTransport_violations
    by (simp add: paymentDetails_def)
  let ?s = "afterTransport\<lparr>heap := (heap afterTransport)
                                  (1 := paymentDetails\<lparr>spoilageRate := None\<rparr>)\<rparr>"
  have v: "recentViolations ?s samplePayment = recentViolations afterTransport samplePayment"
    by (rule recentViolations_flags)
      (simp_all add: afterTransport_payment_Suc paymentDetails_def)
  have c: "fst (processFairPricing samplePayment ?s) =
       Inr \<lparr>status = ''Payment Released'', amount = Some 148750\<rparr>"
    using processFairPricing_spoilage [of samplePayment 1 ?s 500 350] d v
      afterTransport_violations
    by (simp add: paymentDetails_def)
  let ?h = "afterTransport\<lparr>heap := (heap afterTransport)
                                  (1 := paymentDetails\<lparr>spoilageRate := Some 0.5\<rparr>)\<rparr>"
  have w: "recentViolations ?h samplePayment = recentViolations afterTransport samplePayment"
    by (rule recentViolations_flags)
      (simp_all add: afterTransport_payment_Suc paymentDetails_def)
  have e: "fst (processFairPricing samplePayment ?h) =
       Inr \<lparr>status = ''Payment Released'', amount = Some 87500\<rparr>"
    using processFairPricing_spoilage [of samplePayment 1 ?h 500 350] d w
      afterTransport_violations
    by (simp add: paymentDetails_def)
  from a b c e show ?thesis by blast
qed

text \<open>
  C5. On an event with thresholds, the temperature check fires exactly when the
  temperature is below the minimum or above the maximum (the bounds themselves do not
  violate), the humidity check likewise, each whatever the other did; the status is
  "Conditions Met" exactly when neither fires; and the temperature message, when
  there is one, comes before the humidity message.
\<close>

theorem verifyFoodConditions_checks:
  assumes "details tx = Some a" and "thresholds (heap s a) = Some th"
    and "currentTempCelsius (heap s a) = Some t"
    and "minTemp th = Some tlo" and "maxTemp th = Some thi"
    and "currentHumidityPercent (heap s a) = Some h"
    and "minHumidity th = Some hlo" and "maxHumidity th = Some hhi"
  shows "fst (verifyFoodConditions tx s) =
    Inr \<lparr>cstatus = (if (t < tlo \<or> t > thi) \<or> (h < hlo \<or> h > hhi)
                    then ''Condition Violation'' else ''Conditions Met''),
         violations =
           (if t < tlo \<or> t > thi
            then [TemperatureViolation (Some t) (Some tlo) (Some thi)] else []) @
           (if h < hlo \<or> h > hhi
            then [HumidityViolation (Some h) (Some hlo) (Some hhi)] else [])\<rparr>"
  using assms by (simp add: verifyFoodConditions_def checkConditions_def Let_def)

theorem verifyFoodConditions_checks_witness:
  "fst (verifyFoodConditions sampleTransport (initial sampleHeap)) =
     Inr \<lparr>cstatus = ''Condition Violation'',
          violations = [TemperatureViolation (Some 30) (Some 20) (Some 28)]\<rparr>
   \<and> fst (verifyFoodConditions sampleTransport
        (initial (sampleHeap(0 := transportDetails\<lparr>currentTempCelsius := Some 28,
                                                   currentHumidityPercent := Some 40\<rparr>)))) =
     Inr \<lparr>cstatus = ''Conditions Met'', violations = []\<rparr>
   \<and> fst (verifyFoodConditions sampleTransport
        (initial (sampleHeap(0 := transportDetails\<lparr>currentTempCelsius := Some 19,
                                                   currentHumidityPercent := Some 61\<rparr>)))) =
     Inr \<lparr>cstatus = ''Condition Violation'',
          violations = [TemperatureViolation (Some 19) (Some 20) (Some 28),
                        HumidityViolation (Some 61) (Some 40) (Some 60)]\<rparr>"
proof -
  let ?th = "\<lparr>minTemp = Some 20, maxTemp = Some 28, minHumidity = Some 40, maxHumidity = Some 60\<rparr>"
  have d: "details sampleTransport = Some 0"
    by (simp add: sampleTransport_def)
  have a: "fst (verifyFoodConditions sampleTransport (initial sampleHeap)) =
     Inr \<lparr>cstatus = ''Condition Violation'',
          violations = [TemperatureViolation (Some 30) (Some 20) (Some 28)]\<rparr>"
    using verifyFoodConditions_checks
      [of sampleTransport 0 "initial sampleHeap" ?th 30 20 28 50 40 60] d
    by (simp add: initial_def sampleHeap_def transportDetails_def)
  let ?s2 = "initial (sampleHeap(0 := transportDetails\<lparr>currentTempCelsius := Some 28,
                                                        currentHumidityPercent := Some 40\<rparr>))"
  have b: "fst (verifyFoodConditions sampleTransport ?s2) =
     Inr \<lparr>cstatus = ''Conditions Met'', violations = []\<rparr>"
    using verifyFoodConditions_checks [of sampleTransport 0 ?s2 ?th 28 20 28 40 40 60] d
    by (simp add: initial_def transportDetails_def)
  let ?s3 = "initial (sampleHeap(0 := transportDetails\<lparr>currentTempCelsius := Some 19,
                                                        currentHumidityPercent := Some 61\<rparr>))"
  have c: "fst (verifyFoodConditions sampleTransport ?s3) =
     Inr \<lparr>cstatus = ''Condition Violation'',
          violations = [TemperatureViolation (Some 19) (Some 20) (Some 28),
                        HumidityViolation (Some 61) (Some 40) (Some 60)]\<rparr>"
    using verifyFoodConditions_checks [of sampleTransport 0 ?s3 ?th 19 20 28 61 40 60] d
    by (simp add: initial_def transportDetails_def)
  from a b c show ?thesis by blast
qed

text \<open>
  C6. The ids returned by successive appends from the initial ledger are 1001, 1002,
  and so on without gaps, and each append adds one event at the tail and leaves the
  stored events alone. The second part holds for all records
  (\<open>addTransactions_ledger\<close>, \<open>run_ledger\<close>), and the first for records that carry
  no \<^verbatim>\<open>id\<close> (\<open>addTransactions_ids_initial\<close>). A record with an \<^verbatim>\<open>id\<close> of its
  own keeps it, because the record is spread after the counter's value: two appends,
  the first of a record with id 7, return the ids 7 and 1002.
\<close>

theorem addTransaction_supplied_id:
  "map id' (fst (addTransactions
      [(''2025-05-24T18:00:00.000Z'', sampleTransport\<lparr>id' := Some 7\<rparr>),
       (''2025-05-25T09:00:00.000Z'', samplePayment)] (initial sampleHeap))) =
     [Some 7, Some 1002]"
  by (simp add: addTransaction_def initial_def sampleTransport_def samplePayment_def Let_def)

text \<open>
  C7. Nothing is clamped: with both flags true, a flagged event of the product on the
  ledger and a spoilage rate above 1, the amount returned is
  (quantity minus rate times quantity) times price, which is negative for a positive
  quantity and a positive price.
\<close>

theorem processFairPricing_no_clamp:
  assumes "details tx = Some a"
    and "truthy (qualityVerified (heap s a))" and "truthy (deliveryConfirmed (heap s a))"
    and "recentViolations s tx \<noteq> []"
    and "spoilageRate (heap s a) = Some r" and "1 < r"
    and "quantityKg (heap s a) = Some q" and "agreedPricePerKg (heap s a) = Some p"
  shows "fst (processFairPricing tx s) =
           Inr \<lparr>status = ''Payment Released'', amount = Some ((q - r * q) * p)\<rparr>
         \<and> (0 < q \<and> 0 < p \<longrightarrow> (q - r * q) * p < 0)"
proof -
  have "q - r * q < 0" if "0 < q"
  proof -
    have "q * 1 < q * r"
      using \<open>1 < r\<close> that by (rule mult_strict_left_mono)
    then show ?thesis by (simp add: mult.commute)
  qed
  then have "(q - r * q) * p < 0" if "0 < q" "0 < p"
    using that by (simp add: mult_neg_pos)
  moreover have "fst (processFairPricing tx s) =
           Inr \<lparr>status = ''Payment Released'', amount = Some ((q - r * q) * p)\<rparr>"
    using assms by (simp add: processFairPricing_def spoilage_def Let_def)
  ultimately show ?thesis by blast
qed

theorem processFairPricing_no_clamp_witness:
  "fst (processFairPricing samplePayment
          (afterTransport\<lparr>heap := (heap afterTransport)
                                   (1 := paymentDetails\<lparr>spoilageRate := Some 1.5\<rparr>)\<rparr>)) =
     Inr \<lparr>status = ''Payment Released'', amount = Some (- 87500)\<rparr>"
proof -
  let ?s = "afterTransport\<lparr>heap := (heap afterTransport)
                                  (1 := paymentDetails\<lparr>spoilageRate := Some 1.5\<rparr>)\<rparr>"
  have "recentViolations ?s samplePayment = recentViolations afterTransport samplePayment"
    by (rule recentViolations_flags)
      (simp_all add: afterTransport_payment_Suc paymentDetails_def)
  then have v: "recentViolations ?s samplePayment \<noteq> []"
    by (simp add: afterTransport_violations)
  show ?thesis
    using processFairPricing_no_clamp [of samplePayment 1 ?s "1.5" 500 350]
      samplePayment_details v
    by (simp add: paymentDetails_def)
qed

text \<open>
  C8. The evaluator never returns the status "Pending": on every event with a
  \<^verbatim>\<open>details\<close> object it returns a result, and the last branch is not taken, for
  boolean flags and for any other values of the two flags.
\<close>

theorem processFairPricing_never_Pending:
  assumes "details tx = Some a"
  shows "\<exists>r. fst (processFairPricing tx s) = Inr r \<and> status r \<noteq> ''Pending''"
  using assms by (simp add: processFairPricing_def Let_def)

theorem processFairPricing_never_Pending_witness:
  "\<exists>r. fst (processFairPricing samplePayment
               (initial (sampleHeap(1 := paymentDetails\<lparr>qualityVerified := JBool True,
                                                        deliveryConfirmed := JBool False\<rparr>)))) = Inr r
        \<and> status r \<noteq> ''Pending''"
  using processFairPricing_never_Pending [of samplePayment 1]
  by (simp add: samplePayment_def)

text \<open>
  C9. The pricing evaluator changes nothing: the state after the call is the state
  before it, so the ledger's sequence, every stored object with its flag, and the
  counter are the same.
\<close>

theorem processFairPricing_frame:
  "snd (processFairPricing tx s) = s
   \<and> simulatedBlockchain (snd (processFairPricing tx s)) = simulatedBlockchain s
   \<and> heap (snd (processFairPricing tx s)) = heap s
   \<and> nextTransactionId (snd (processFairPricing tx s)) = nextTransactionId s"
  by (simp add: processFairPricing_def Let_def split: option.splits)

theorem processFairPricing_frame_witness:
  "snd (processFairPricing samplePayment afterTransport) = afterTransport"
  using processFairPricing_frame [of samplePayment afterTransport] by simp



end
